theory Spec2Isabelle
  imports Complex_Main "HOL-Library.Sublist"
begin

section \<open>Python text primitives\<close>

text \<open>
  Python text is modelled as \<^typ>\<open>string\<close>. A character below 128 is the ASCII
  character; a code point of a source literal beyond ASCII is written as its UTF-8 bytes.
  The character classes (\<open>str.isspace\<close>, \<open>str.lower\<close>, line boundaries) are the ones
  Python has on ASCII; a byte from 128 on is neither space nor cased.
\<close>

definition is_space :: "char \<Rightarrow> bool" where
  "is_space c = (c \<in> set [CHR 0x09, CHR 0x0A, CHR 0x0B, CHR 0x0C, CHR 0x0D,
                            CHR 0x1C, CHR 0x1D, CHR 0x1E, CHR 0x1F, CHR 0x20])"

definition ascii_upper :: string where
  "ascii_upper = ''ABCDEFGHIJKLMNOPQRSTUVWXYZ''"

definition ascii_lower :: string where
  "ascii_lower = ''abcdefghijklmnopqrstuvwxyz''"

definition lower_char :: "char \<Rightarrow> char" where
  "lower_char c = (case map_of (zip ascii_upper ascii_lower) c of None \<Rightarrow> c | Some d \<Rightarrow> d)"

definition upper_char :: "char \<Rightarrow> char" where
  "upper_char c = (case map_of (zip ascii_lower ascii_upper) c of None \<Rightarrow> c | Some d \<Rightarrow> d)"

text \<open>\<open>s.lower()\<close>\<close>

definition lower :: "string \<Rightarrow> string" where
  "lower s = map lower_char s"

text \<open>\<open>s.strip()\<close>, \<open>s.lstrip()\<close>, \<open>s.rstrip()\<close> with no argument.\<close>

definition lstrip :: "string \<Rightarrow> string" where
  "lstrip s = dropWhile is_space s"

definition rstrip :: "string \<Rightarrow> string" where
  "rstrip s = rev (dropWhile is_space (rev s))"

definition strip :: "string \<Rightarrow> string" where
  "strip s = rstrip (lstrip s)"

text \<open>\<open>s.rstrip("Z")\<close>: every trailing \<open>Z\<close> is removed.\<close>

definition rstrip_Z :: "string \<Rightarrow> string" where
  "rstrip_Z s = rev (dropWhile (\<lambda>c. c = CHR ''Z'') (rev s))"

text \<open>
  \<open>s.split()\<close> with no argument: the maximal runs of non-space characters, in order.
  The first argument is the current run, reversed.
\<close>

fun split_ws :: "string \<Rightarrow> string \<Rightarrow> string list" where
  "split_ws cur [] = (if cur = [] then [] else [rev cur])"
| "split_ws cur (c # cs) =
     (if is_space c then (if cur = [] then split_ws [] cs else rev cur # split_ws [] cs)
      else split_ws (c # cur) cs)"

definition py_split :: "string \<Rightarrow> string list" where
  "py_split s = split_ws [] s"

text \<open>\<open>sep.join(parts)\<close>\<close>

fun join :: "string \<Rightarrow> string list \<Rightarrow> string" where
  "join sep [] = []"
| "join sep [p] = p"
| "join sep (p # q # ps) = p @ sep @ join sep (q # ps)"

text \<open>\<open>sub in s\<close> on strings: \<open>sub\<close> occurs as a contiguous piece of \<open>s\<close>.\<close>

fun py_in :: "string \<Rightarrow> string \<Rightarrow> bool" where
  "py_in sub [] = (sub = [])"
| "py_in sub (c # cs) = (prefix sub (c # cs) \<or> py_in sub cs)"

text \<open>\<open>s.startswith(p)\<close> is \<^const>\<open>prefix\<close> \<open>p s\<close>.\<close>

text \<open>\<open>xs[:n]\<close>: a negative bound counts from the end.\<close>

definition slice_to :: "int \<Rightarrow> 'a list \<Rightarrow> 'a list" where
  "slice_to n xs = (if 0 \<le> n then take (nat n) xs else take (length xs - nat (- n)) xs)"

section \<open>Values and exceptions\<close>

datatype pyexn = ValueError | TypeError | AttributeError | KeyError | IndexError | HTTPError

text \<open>
  A value decoded from a JSON response body. Numbers are the integers; a number with a
  fraction is not modelled.
\<close>

datatype json = JNull | JBool bool | JInt int | JStr string | JArr "json list"
  | JObj "(string \<times> json) list"

text \<open>A decoded JSON object (\<open>dict\<close>); \<open>d.get(k)\<close> is \<open>d k\<close>, with \<open>None\<close> for a missing key.\<close>

type_synonym pydict = "string \<rightharpoonup> json"

text \<open>Python's truth value of a decoded value; \<open>None\<close> (a missing key or \<open>null\<close>) is false.\<close>

fun truthy :: "json \<Rightarrow> bool" where
  "truthy JNull = False"
| "truthy (JBool b) = b"
| "truthy (JInt n) = (n \<noteq> 0)"
| "truthy (JStr s) = (s \<noteq> [])"
| "truthy (JArr xs) = (xs \<noteq> [])"
| "truthy (JObj kvs) = (kvs \<noteq> [])"

text \<open>\<open>d.get(k)\<close> as a value: a missing key reads as \<open>None\<close>, which is \<^const>\<open>JNull\<close>.\<close>

definition dget :: "pydict \<Rightarrow> string \<Rightarrow> json" where
  "dget d k = (case d k of None \<Rightarrow> JNull | Some v \<Rightarrow> v)"

text \<open>\<open>a or b\<close>\<close>

definition py_or :: "json \<Rightarrow> json \<Rightarrow> json" where
  "py_or a b = (if truthy a then a else b)"

section \<open>CertificationResolver\<close>

text \<open>
  \<open>(o.get(k) or "").lower()\<close>: a missing, null or otherwise false value reads as the
  empty string; a true value that is not a string has no \<open>lower\<close> method.
\<close>

definition get_lower :: "pydict \<Rightarrow> string \<Rightarrow> pyexn + string" where
  "get_lower d k =
     (case py_or (dget d k) (JStr []) of
        JStr s \<Rightarrow> Inr (lower s)
      | _ \<Rightarrow> Inl AttributeError)"

text \<open>\<open>find_cert_order\<close> of \<open>validate_cpo_with_groupname.py\<close> and \<open>validate_cpo.py\<close>.\<close>

fun find_cert_order :: "pydict list \<Rightarrow> pyexn + pydict option" where
  "find_cert_order [] = Inr None"
| "find_cert_order (ord # os) =
     (case get_lower ord ''daOrderType'' of
        Inl e \<Rightarrow> Inl e
      | Inr da \<Rightarrow>
          (case get_lower ord ''documentName'' of
             Inl e \<Rightarrow> Inl e
           | Inr dn \<Rightarrow>
               if prefix ''485'' da \<or> py_in ''485'' dn \<or> py_in ''recert'' da \<or> py_in ''recert'' dn
               then Inr (Some ord)
               else find_cert_order os))"

text \<open>\<open>find_485_cert_order\<close> of \<open>generate_cpo.py\<close>.\<close>

fun find_485_cert_order :: "pydict list \<Rightarrow> pyexn + pydict option" where
  "find_485_cert_order [] = Inr None"
| "find_485_cert_order (ord # os) =
     (case get_lower ord ''daOrderType'' of
        Inl e \<Rightarrow> Inl e
      | Inr da \<Rightarrow>
          (case get_lower ord ''documentName'' of
             Inl e \<Rightarrow> Inl e
           | Inr dn \<Rightarrow>
               if prefix ''485'' da \<or> py_in ''485'' dn
               then Inr (Some ord)
               else find_485_cert_order os))"


section \<open>TimeWindow\<close>

text \<open>
  A naive \<open>datetime\<close> is the number of microseconds from the start of day 0 of the
  proleptic Gregorian calendar (day 1 is 0001-01-01, as \<open>date.toordinal\<close> counts).
  Comparison, \<open>min\<close>, \<open>max\<close> and subtraction of datetimes are those of the integers.
\<close>

type_synonym datetime = int

definition is_leap :: "int \<Rightarrow> bool" where
  "is_leap y = (y mod 4 = 0 \<and> (y mod 100 \<noteq> 0 \<or> y mod 400 = 0))"

text \<open>\<open>calendar.monthrange(y, m)[1]\<close>, for a month from 1 to 12.\<close>

definition days_in_month :: "int \<Rightarrow> int \<Rightarrow> int" where
  "days_in_month y m =
     (if m = 2 \<and> is_leap y then 29
      else [31, 28, 31, 30, 31, 30, 31, 31, 30, 31, 30, 31] ! nat (m - 1))"

definition days_before_year :: "int \<Rightarrow> int" where
  "days_before_year y = (y - 1) * 365 + (y - 1) div 4 - (y - 1) div 100 + (y - 1) div 400"

definition days_before_month :: "int \<Rightarrow> int \<Rightarrow> int" where
  "days_before_month y m =
     [0, 31, 59, 90, 120, 151, 181, 212, 243, 273, 304, 334] ! nat (m - 1)
       + (if 2 < m \<and> is_leap y then 1 else 0)"

definition ymd2ord :: "int \<Rightarrow> int \<Rightarrow> int \<Rightarrow> int" where
  "ymd2ord y m d = days_before_year y + days_before_month y m + d"

text \<open>\<open>datetime(y, m, d, hh, mm, ss)\<close> for a valid date and time of day.\<close>

definition mk_datetime :: "int \<Rightarrow> int \<Rightarrow> int \<Rightarrow> int \<Rightarrow> int \<Rightarrow> int \<Rightarrow> datetime" where
  "mk_datetime y m d hh mm ss = (((ymd2ord y m d * 24 + hh) * 60 + mm) * 60 + ss) * 1000000"

definition is_digit :: "char \<Rightarrow> bool" where
  "is_digit c = (c \<in> set ''0123456789'')"

definition digit_val :: "char \<Rightarrow> int" where
  "digit_val c = (case map_of (zip ''0123456789'' [0, 1, 2, 3, 4, 5, 6, 7, 8, 9]) c of
                    None \<Rightarrow> 0 | Some v \<Rightarrow> v)"

definition digits_val :: "string \<Rightarrow> int" where
  "digits_val s = foldl (\<lambda>acc c. acc * 10 + digit_val c) 0 s"

text \<open>\<open>s.split(c)\<close> for a one-character separator.\<close>

fun split_on :: "char \<Rightarrow> string \<Rightarrow> string list" where
  "split_on sep [] = [[]]"
| "split_on sep (c # cs) =
     (if c = sep then [] # split_on sep cs
      else (case split_on sep cs of [] \<Rightarrow> [[c]] | p # ps \<Rightarrow> (c # p) # ps))"

text \<open>
  The directives of \<open>strptime\<close>: \<open>%m\<close> is \<open>1[0-2]|0[1-9]|[1-9]\<close>, \<open>%d\<close> is
  \<open>3[01]|[12]\d|0[1-9]|[1-9]| [1-9]\<close>, \<open>%Y\<close> is four digits.
\<close>

definition re_m :: "string \<Rightarrow> bool" where
  "re_m s = (case s of
      [a] \<Rightarrow> a \<in> set ''123456789''
    | [a, b] \<Rightarrow> (a = CHR ''1'' \<and> b \<in> set ''012'') \<or> (a = CHR ''0'' \<and> b \<in> set ''123456789'')
    | _ \<Rightarrow> False)"

definition re_d :: "string \<Rightarrow> bool" where
  "re_d s = (case s of
      [a] \<Rightarrow> a \<in> set ''123456789''
    | [a, b] \<Rightarrow> (a = CHR ''3'' \<and> b \<in> set ''01'') \<or> (a \<in> set ''12'' \<and> is_digit b)
               \<or> (a \<in> set ''0 '' \<and> b \<in> set ''123456789'')
    | _ \<Rightarrow> False)"

definition re_Y :: "string \<Rightarrow> bool" where
  "re_Y s = (length s = 4 \<and> list_all is_digit s)"

text \<open>
  \<open>parse_date\<close>: \<open>datetime.strptime(s, "%m/%d/%Y")\<close>. The text must be month, day and
  year between two slashes, and name a day that exists; anything else is a
  \<open>ValueError\<close>.
\<close>

definition parse_date :: "string \<Rightarrow> pyexn + datetime" where
  "parse_date s =
     (case split_on CHR ''/'' s of
        [m, d, y] \<Rightarrow>
          (if re_m m \<and> re_d d \<and> re_Y y then
             (let mi = digits_val m; di = digits_val (filter is_digit d); yi = digits_val y
              in if 1 \<le> yi \<and> di \<le> days_in_month yi mi
                 then Inr (mk_datetime yi mi di 0 0 0) else Inl ValueError)
           else Inl ValueError)
      | _ \<Rightarrow> Inl ValueError)"

text \<open>\<open>cert[k]\<close> handed to \<open>parse_date\<close>: a missing key and a value that is no text raise.\<close>

definition parse_date_field :: "pydict \<Rightarrow> string \<Rightarrow> pyexn + datetime" where
  "parse_date_field d k =
     (case d k of
        None \<Rightarrow> Inl KeyError
      | Some (JStr s) \<Rightarrow> parse_date s
      | Some _ \<Rightarrow> Inl TypeError)"

text \<open>\<open>s.title()\<close>: a letter after a letter is lowered, any other letter is raised.\<close>

definition is_alpha :: "char \<Rightarrow> bool" where
  "is_alpha c = (c \<in> set ascii_upper \<or> c \<in> set ascii_lower)"

fun title_from :: "bool \<Rightarrow> string \<Rightarrow> string" where
  "title_from prev [] = []"
| "title_from prev (c # cs) =
     (if is_alpha c then (if prev then lower_char c else upper_char c) # title_from True cs
      else c # title_from False cs)"

definition title :: "string \<Rightarrow> string" where
  "title s = title_from False s"

definition month_names :: "string list" where
  "month_names = [''january'', ''february'', ''march'', ''april'', ''may'', ''june'', ''july'',
                  ''august'', ''september'', ''october'', ''november'', ''december'']"

text \<open>
  \<open>datetime.strptime(s, "%B %Y")\<close>, as the year and the month it finds: a full month
  name in any case, white space, four digits, and nothing more. The first argument
  counts the months tried so far.
\<close>

fun match_month :: "int \<Rightarrow> string list \<Rightarrow> string \<Rightarrow> (int \<times> string) option" where
  "match_month k [] s = None"
| "match_month k (name # names) s =
     (if prefix name (lower s) then Some (k + 1, drop (length name) s)
      else match_month (k + 1) names s)"

definition strptime_month :: "string \<Rightarrow> pyexn + (int \<times> int)" where
  "strptime_month s =
     (case match_month 0 month_names s of
        None \<Rightarrow> Inl ValueError
      | Some (mi, rest) \<Rightarrow>
          (let y = dropWhile is_space rest
           in if y \<noteq> rest \<and> re_Y y \<and> 1 \<le> digits_val y
              then Inr (digits_val y, mi) else Inl ValueError))"

text \<open>\<open>datetime.strptime(" ".join(month.split()).title(), "%B %Y")\<close>\<close>

definition month_of_label :: "string \<Rightarrow> pyexn + (int \<times> int)" where
  "month_of_label label = strptime_month (title (join '' '' (py_split label)))"

text \<open>The first and the last instant of a month, as the three scripts build them.\<close>

definition month_first :: "int \<times> int \<Rightarrow> datetime" where
  "month_first ym = mk_datetime (fst ym) (snd ym) 1 0 0 0"

definition month_last :: "int \<times> int \<Rightarrow> datetime" where
  "month_last ym = mk_datetime (fst ym) (snd ym) (days_in_month (fst ym) (snd ym)) 23 59 59"

text \<open>
  The window of \<open>main\<close> in \<open>validate_cpo_with_groupname.py\<close>: the three dates of the
  order are parsed in the source's order, then the month label.
\<close>

definition window_groupname :: "pydict \<Rightarrow> string \<Rightarrow> pyexn + (datetime \<times> datetime)" where
  "window_groupname cert month =
     (case parse_date_field cert ''startOfCare'' of Inl e \<Rightarrow> Inl e | Inr soc \<Rightarrow>
      case parse_date_field cert ''episodeStartDate'' of Inl e \<Rightarrow> Inl e | Inr eps \<Rightarrow>
      case parse_date_field cert ''episodeEndDate'' of Inl e \<Rightarrow> Inl e | Inr epe \<Rightarrow>
      case month_of_label month of Inl e \<Rightarrow> Inl e | Inr mdt \<Rightarrow>
        Inr (soc, min epe (month_last mdt)))"

text \<open>The window of \<open>main\<close> in \<open>validate_cpo.py\<close>.\<close>

definition window_validate_cpo :: "pydict \<Rightarrow> string \<Rightarrow> pyexn + (datetime \<times> datetime)" where
  "window_validate_cpo cert month =
     (case parse_date_field cert ''startOfCare'' of Inl e \<Rightarrow> Inl e | Inr soc \<Rightarrow>
      case parse_date_field cert ''episodeStartDate'' of Inl e \<Rightarrow> Inl e | Inr ep_start \<Rightarrow>
      case parse_date_field cert ''episodeEndDate'' of Inl e \<Rightarrow> Inl e | Inr ep_end \<Rightarrow>
      case month_of_label month of Inl e \<Rightarrow> Inl e | Inr mdt \<Rightarrow>
        Inr (max soc (month_first mdt), min ep_end (month_last mdt)))"

text \<open>
  \<open>random_date\<close>: \<open>int\<close> rounds the seconds of the difference towards zero, and
  \<open>random.randint(0, secs)\<close> raises \<open>ValueError\<close> on an empty range. The first argument
  is the generator's draw, reduced into the range.
\<close>

definition trunc_div :: "int \<Rightarrow> int \<Rightarrow> int" where
  "trunc_div a b = (if 0 \<le> a then a div b else - ((- a) div b))"

definition random_date :: "nat \<Rightarrow> datetime \<Rightarrow> datetime \<Rightarrow> pyexn + datetime" where
  "random_date draw start end' =
     (let secs = trunc_div (end' - start) 1000000
      in if secs < 0 then Inl ValueError
         else Inr (start + (int draw mod (secs + 1)) * 1000000))"


section \<open>The generative backend and the record store\<close>

text \<open>
  One call of \<open>client.chat.completions.create\<close>: the two messages and the sampling
  parameters go out, and a completion's text or an exception with its message comes
  back. \<open>APITimeoutError\<close> is a subclass of \<open>OpenAIError\<close>; the constructor
  \<open>OpenAIError\<close> stands for every other failure of the backend. The backend is any
  function of the number of calls made before and of the request.
\<close>

record llm_request =
  system_msg :: string
  user_msg :: string
  temperature :: rat
  max_tokens :: nat
  timeout :: nat

datatype llm_response = Completion string | APITimeoutError string | OpenAIError string

type_synonym backend = "nat \<Rightarrow> llm_request \<Rightarrow> llm_response"

text \<open>The body of the POST that \<open>post_note\<close> builds.\<close>

record note_body =
  patientId :: string
  startOfCare :: string
  startOfEpisode :: string
  endOfEpisode :: string
  noteType :: string
  noteTitle :: string
  noteText :: string
  cpOmin :: int
  sentToPhysicianDate :: string
  sentToPhysicianStatus :: bool

datatype http_request = GET string | POST string note_body

text \<open>
  What a run has done to the outside so far: the requests sent to the record store, the
  requests sent to the backend, and the number of draws from the random generator.
\<close>

record world =
  http_log :: "http_request list"
  llm_log :: "llm_request list"
  draws :: nat

definition BASE_URL :: string where
  "BASE_URL = ''https://dawavorderpatient-hqe2apddbje9gte0.eastus-01.azurewebsites.net/api''"

text \<open>The three addresses the scripts read from and post to.\<close>

definition ccnotes_url :: "string \<Rightarrow> string" where
  "ccnotes_url pid = BASE_URL @ ''/CCNotes/patient/'' @ pid"

definition orders_url :: "string \<Rightarrow> string" where
  "orders_url pid = BASE_URL @ ''/Order/patient/'' @ pid"

definition patient_total_url :: "string \<Rightarrow> string" where
  "patient_total_url pid = BASE_URL @ ''/Patient/total/'' @ pid"

definition NL :: string where
  "NL = [CHR 0x0A]"

section \<open>MinuteLedger\<close>

text \<open>
  \<open>datetime.fromisoformat\<close> is the standard library's and is a parameter of the
  ledger: it answers a \<open>ValueError\<close>, a naive datetime, or a datetime with a UTC
  offset. Comparing the latter with the naive bounds of the month is a \<open>TypeError\<close>.
\<close>

datatype iso_result = IsoError | IsoNaive datetime | IsoAware

text \<open>
  \<open>int(s)\<close> on text: white space around, an optional sign, then decimal digits, where
  single underscores may stand between digits.
\<close>

fun digits_ok :: "bool \<Rightarrow> string \<Rightarrow> bool" where
  "digits_ok after_digit [] = after_digit"
| "digits_ok after_digit (c # cs) =
     (if is_digit c then digits_ok True cs
      else if c = CHR ''_'' \<and> after_digit then digits_ok False cs
      else False)"

definition int_of_str :: "string \<Rightarrow> pyexn + int" where
  "int_of_str s =
     (let t = strip s;
          neg = (t \<noteq> [] \<and> hd t = CHR ''-'');
          body = (if t \<noteq> [] \<and> (hd t = CHR ''-'' \<or> hd t = CHR ''+'') then tl t else t)
      in if digits_ok False body
         then Inr ((if neg then - 1 else 1) * digits_val (filter is_digit body))
         else Inl ValueError)"

text \<open>\<open>int(v)\<close> on a decoded value.\<close>

fun py_int :: "json \<Rightarrow> pyexn + int" where
  "py_int (JInt n) = Inr n"
| "py_int (JBool b) = Inr (if b then 1 else 0)"
| "py_int (JStr s) = int_of_str s"
| "py_int JNull = Inl TypeError"
| "py_int (JArr xs) = Inl TypeError"
| "py_int (JObj kvs) = Inl TypeError"


text \<open>
  The same loop in \<open>validate_cpo.py\<close> and \<open>validate_cpo_with_groupname.py\<close>:
  \<open>fromisoformat\<close> is called outside any \<open>try\<close>, so its \<open>ValueError\<close> leaves the function.
\<close>

fun sum_minutes_validate :: "(string \<Rightarrow> iso_result) \<Rightarrow> datetime \<Rightarrow> datetime \<Rightarrow> pydict list
    \<Rightarrow> int \<Rightarrow> pyexn + int" where
  "sum_minutes_validate fromiso first last' [] total' = Inr total'"
| "sum_minutes_validate fromiso first last' (n # ns) total' =
     (let ts = py_or (dget n ''updatedOn'') (dget n ''createdAt'') in
      if \<not> truthy ts then sum_minutes_validate fromiso first last' ns total'
      else (case ts of
          JStr s \<Rightarrow>
            (case fromiso (rstrip_Z s) of
               IsoError \<Rightarrow> Inl ValueError
             | IsoAware \<Rightarrow> Inl TypeError
             | IsoNaive dt \<Rightarrow>
                 if first \<le> dt \<and> dt \<le> last' then
                   (case py_int (py_or (dget n ''cpOmin'') (JInt 0)) of
                      Inl e \<Rightarrow> Inl e
                    | Inr k \<Rightarrow> sum_minutes_validate fromiso first last' ns (total' + k))
                 else sum_minutes_validate fromiso first last' ns total')
        | _ \<Rightarrow> Inl AttributeError))"


definition get_existing_cpo_minutes_validate ::
    "(string \<Rightarrow> iso_result) \<Rightarrow> (pyexn + pydict list) \<Rightarrow> string \<Rightarrow> string \<Rightarrow> http_request list
     \<Rightarrow> (pyexn + int) \<times> http_request list" where
  "get_existing_cpo_minutes_validate fromiso resp pid month reqs =
     (case month_of_label month of
        Inl e \<Rightarrow> (Inl e, reqs)
      | Inr mdt \<Rightarrow>
          (case resp of
             Inl e \<Rightarrow> (Inl e, reqs @ [GET (ccnotes_url pid)])
           | Inr notes \<Rightarrow>
               (sum_minutes_validate fromiso (month_first mdt) (month_last mdt) notes 0,
                reqs @ [GET (ccnotes_url pid)])))"

text \<open>\<open>get_orders\<close>, \<open>get_cert_info\<close> and \<open>get_ccnotes\<close>: one GET each.\<close>

definition get_orders :: "(pyexn + pydict list) \<Rightarrow> string \<Rightarrow> http_request list
    \<Rightarrow> (pyexn + pydict list) \<times> http_request list" where
  "get_orders resp pid reqs = (resp, reqs @ [GET (orders_url pid)])"

text \<open>
  The summary of a patient as \<open>main\<close> reads it: \<open>agencyInfo\<close> with its list of diagnoses
  and its certification statement, each of which may be missing.
\<close>

record agency_info =
  icdCodes :: "string list option"
  physicianCertification :: "string option"

definition get_cert_info :: "(pyexn + agency_info option) \<Rightarrow> string \<Rightarrow> http_request list
    \<Rightarrow> (pyexn + agency_info option) \<times> http_request list" where
  "get_cert_info resp pid reqs = (resp, reqs @ [GET (patient_total_url pid)])"

definition get_ccnotes :: "(pyexn + pydict list) \<Rightarrow> string \<Rightarrow> http_request list
    \<Rightarrow> (pyexn + pydict list) \<times> http_request list" where
  "get_ccnotes resp pid reqs = (resp, reqs @ [GET (ccnotes_url pid)])"

section \<open>NoteGenerator\<close>

definition digit_char :: "nat \<Rightarrow> char" where
  "digit_char n = ''0123456789'' ! n"

function str_nat :: "nat \<Rightarrow> string" where
  "str_nat n = (if n < 10 then [digit_char n] else str_nat (n div 10) @ [digit_char (n mod 10)])"
  by pat_completeness auto
termination
  by (relation "measure id") auto

declare str_nat.simps [simp del]

text \<open>\<open>str(n)\<close> on an integer.\<close>

definition str_int :: "int \<Rightarrow> string" where
  "str_int i = (if i < 0 then ''-'' @ str_nat (nat (- i)) else str_nat (nat i))"

text \<open>\<open>build_gen_prompt\<close> of \<open>validate_cpo_with_groupname.py\<close>; the dash is U+2013.\<close>

definition build_gen_prompt :: "string list \<Rightarrow> string \<Rightarrow> int \<Rightarrow> string" where
  "build_gen_prompt icd phys cnt =
     ''Patient Diagnoses (do NOT print numeric ICD-10 codes): '' @ join '', '' (take 5 icd) @ NL
     @ ''Physician Certification Statement:'' @ NL @ phys @ NL @ NL
     @ ''Please generate '' @ str_int cnt
     @ '' well-formed care-coordination notes as a nurse, each ~3 minutes ''
     @ ''(about 100'' @ [CHR 0xE2, CHR 0x80, CHR 0x93] @ ''150 words). For each note, output:'' @ NL
     @ ''NoteTitle: <concise title>'' @ NL
     @ ''NoteText: <narrative>'' @ NL @ NL
     @ ''Separate notes with two blank lines.'' @ NL"

text \<open>\<open>build_prompt\<close> of \<open>generate_cpo.py\<close>; the apostrophe is U+2019.\<close>

definition build_prompt :: "string list \<Rightarrow> string \<Rightarrow> int \<Rightarrow> string" where
  "build_prompt icd_codes physician_text count' =
     ''Patient has the following diagnoses (ICD-10 codes not to be mentioned directly): ''
     @ join '', '' (take 5 icd_codes) @ NL
     @ ''Physician Certification Statement:'' @ NL @ physician_text @ NL @ NL
     @ ''Generate '' @ str_int count' @ '' distinct, human-sounding care-coordination notes ''
     @ ''(each ~3 minutes), referencing the patient'' @ [CHR 0xE2, CHR 0x80, CHR 0x99]
     @ ''s conditions and physician statement, ''
     @ ''but do NOT print any numeric ICD-10 codes.''"

text \<open>The request both generators send.\<close>

definition gen_request :: "string \<Rightarrow> llm_request" where
  "gen_request prompt =
     \<lparr>system_msg = ''You are a skilled nurse documentation assistant.'', user_msg = prompt,
      temperature = 7 / 10, max_tokens = 600, timeout = 60\<rparr>"

text \<open>\<open>s.split("\n\n")\<close>: the pieces between the occurrences of two line feeds, left to right.\<close>

fun split_blank :: "string \<Rightarrow> string list" where
  "split_blank [] = [[]]"
| "split_blank [a] = [[a]]"
| "split_blank (a # b # cs) =
     (if a = CHR 0x0A \<and> b = CHR 0x0A then [] # split_blank cs
      else (case split_blank (b # cs) of [] \<Rightarrow> [[a]] | p # ps \<Rightarrow> (a # p) # ps))"

text \<open>
  \<open>s.splitlines()\<close>: a line ends at a line boundary (carriage return and line feed
  together are one), and no empty line follows the last boundary. The first argument
  is the current line, reversed.
\<close>

definition is_linebreak :: "char \<Rightarrow> bool" where
  "is_linebreak c = (c \<in> set [CHR 0x0A, CHR 0x0B, CHR 0x0C, CHR 0x0D, CHR 0x1C, CHR 0x1D, CHR 0x1E])"

fun lines_from :: "string \<Rightarrow> string \<Rightarrow> string list" where
  "lines_from cur [] = (if cur = [] then [] else [rev cur])"
| "lines_from cur [c] = (if is_linebreak c then [rev cur] else [rev (c # cur)])"
| "lines_from cur (c # d # cs) =
     (if c = CHR 0x0D \<and> d = CHR 0x0A then rev cur # lines_from [] cs
      else if is_linebreak c then rev cur # lines_from [] (d # cs)
      else lines_from (c # cur) (d # cs))"

definition splitlines :: "string \<Rightarrow> string list" where
  "splitlines s = lines_from [] s"

text \<open>\<open>s.split(":", 1)[1]\<close>: what follows the first colon; without a colon the index is out of range.\<close>

definition after_colon :: "string \<Rightarrow> pyexn + string" where
  "after_colon s =
     (if CHR '':'' \<in> set s then Inr (tl (dropWhile (\<lambda>c. c \<noteq> CHR '':'') s))
      else Inl IndexError)"

text \<open>The loop over the blocks of a completion in \<open>generate_notes\<close> of \<open>validate_cpo_with_groupname.py\<close>.\<close>

fun parse_blocks :: "string list \<Rightarrow> pyexn + (string \<times> string) list" where
  "parse_blocks [] = Inr []"
| "parse_blocks (block # blocks) =
     (if prefix ''NoteTitle:'' (strip block) then
        (case splitlines block of
           [] \<Rightarrow> Inl IndexError
         | l0 # ls \<Rightarrow>
             (case after_colon l0 of
                Inl e \<Rightarrow> Inl e
              | Inr t \<Rightarrow>
                  (case (case ls of [] \<Rightarrow> Inr [] | l1 # _ \<Rightarrow> after_colon l1) of
                     Inl e \<Rightarrow> Inl e
                   | Inr x \<Rightarrow>
                       (case parse_blocks blocks of
                          Inl e \<Rightarrow> Inl e
                        | Inr notes \<Rightarrow> Inr ((strip t, strip x) # notes)))))
      else parse_blocks blocks)"

definition parse_notes :: "string \<Rightarrow> pyexn + (string \<times> string) list" where
  "parse_notes content = parse_blocks (split_blank (strip content))"

text \<open>
  \<open>generate_notes\<close> of \<open>validate_cpo_with_groupname.py\<close>: \<open>for _ in range(2)\<close> with the
  prompt built once before the loop. The first argument counts the attempts left; the
  log of backend requests is threaded through.
\<close>

fun generate_attempts :: "nat \<Rightarrow> backend \<Rightarrow> string \<Rightarrow> llm_request list
    \<Rightarrow> (pyexn + (string \<times> string) list) \<times> llm_request list" where
  "generate_attempts 0 llm prompt sent = (Inr [], sent)"
| "generate_attempts (Suc k) llm prompt sent =
     (case llm (length sent) (gen_request prompt) of
        Completion content \<Rightarrow> (parse_notes content, sent @ [gen_request prompt])
      | APITimeoutError msg \<Rightarrow> generate_attempts k llm prompt (sent @ [gen_request prompt])
      | OpenAIError msg \<Rightarrow> (Inr [], sent @ [gen_request prompt]))"

definition generate_notes :: "backend \<Rightarrow> string list \<Rightarrow> string \<Rightarrow> int \<Rightarrow> llm_request list
    \<Rightarrow> (pyexn + (string \<times> string) list) \<times> llm_request list" where
  "generate_notes llm icd phys cnt sent = generate_attempts 2 llm (build_gen_prompt icd phys cnt) sent"

text \<open>
  \<open>generate_notes\<close> of \<open>generate_cpo.py\<close>: \<open>for attempt in range(2)\<close>; the list holds the
  attempts still to run. A completion is cut into its non-blank paragraphs.
\<close>

definition paragraphs :: "string \<Rightarrow> string list" where
  "paragraphs content = map strip (filter (\<lambda>n. strip n \<noteq> []) (split_blank (strip content)))"

fun generate_notes_attempts :: "nat list \<Rightarrow> backend \<Rightarrow> string \<Rightarrow> llm_request list
    \<Rightarrow> string list \<times> llm_request list" where
  "generate_notes_attempts [] llm prompt sent = ([], sent)"
| "generate_notes_attempts (attempt # rest) llm prompt sent =
     (case llm (length sent) (gen_request prompt) of
        Completion content \<Rightarrow> (paragraphs content, sent @ [gen_request prompt])
      | APITimeoutError msg \<Rightarrow>
          (if attempt = 0 then generate_notes_attempts rest llm prompt (sent @ [gen_request prompt])
           else ([], sent @ [gen_request prompt]))
      | OpenAIError msg \<Rightarrow> ([], sent @ [gen_request prompt]))"

definition generate_notes_cpo :: "backend \<Rightarrow> string \<Rightarrow> llm_request list
    \<Rightarrow> string list \<times> llm_request list" where
  "generate_notes_cpo llm prompt sent = generate_notes_attempts [0, 1] llm prompt sent"

section \<open>Validator\<close>

text \<open>The prompt of \<open>validate_note\<close> in \<open>validate_cpo_with_groupname.py\<close>.\<close>

definition validate_prompt :: "string \<Rightarrow> string \<Rightarrow> string \<Rightarrow> string list \<Rightarrow> string \<Rightarrow> string" where
  "validate_prompt group' title' text' icd phys =
     ''Validate this care-coordination note as a home-health physician.'' @ NL
     @ ''Category: '' @ group' @ NL @ NL
     @ ''Diagnoses (no codes): '' @ join '', '' (take 5 icd) @ NL
     @ ''Physician stmt: '' @ phys @ NL @ NL
     @ ''Title: '' @ title' @ NL @ NL
     @ ''Text: '' @ text' @ NL @ NL
     @ ''1) Does the title reflect the text?'' @ NL
     @ ''2) Is it medically sound?'' @ NL
     @ ''3) Is it relevant to the category?'' @ NL @ NL
     @ ''Reply: VALID or INVALID: <reasons>''"

definition val_request :: "string \<Rightarrow> llm_request" where
  "val_request prompt =
     \<lparr>system_msg = ''You are a home-health physician reviewer.'', user_msg = prompt,
      temperature = 0, max_tokens = 300, timeout = 60\<rparr>"

text \<open>The text an \<open>OpenAIError\<close> is turned into; the cross mark is U+274C.\<close>

definition validation_error :: "string \<Rightarrow> string" where
  "validation_error msg = [CHR 0xE2, CHR 0x9D, CHR 0x8C] @ '' Validation error: '' @ msg"

text \<open>\<open>validate_note\<close>: one request; \<open>except OpenAIError\<close> catches a timeout as well.\<close>

definition validate_note :: "backend \<Rightarrow> string \<Rightarrow> string \<Rightarrow> string \<Rightarrow> string list \<Rightarrow> string
    \<Rightarrow> llm_request list \<Rightarrow> string \<times> llm_request list" where
  "validate_note llm group' title' text' icd phys sent =
     (let req = val_request (validate_prompt group' title' text' icd phys) in
      case llm (length sent) req of
        Completion content \<Rightarrow> (strip content, sent @ [req])
      | APITimeoutError msg \<Rightarrow> (validation_error msg, sent @ [req])
      | OpenAIError msg \<Rightarrow> (validation_error msg, sent @ [req]))"

section \<open>Posting\<close>

definition DRY_RUN :: bool where
  "DRY_RUN = True"

text \<open>
  \<open>post_note\<close>, with the module's \<open>DRY_RUN\<close> and the status code the store would answer
  as arguments: the answer and the requests sent.
\<close>

definition post_note :: "bool \<Rightarrow> nat \<Rightarrow> http_request list \<Rightarrow> string \<Rightarrow> string \<Rightarrow> string \<Rightarrow> string
    \<Rightarrow> string \<Rightarrow> string \<Rightarrow> string \<Rightarrow> string \<Rightarrow> bool \<times> http_request list" where
  "post_note dry_run status_code sent pid soc eps epe note_type title' text' send_date =
     (if dry_run then (True, sent)
      else (let body = \<lparr>patientId = pid, startOfCare = soc, startOfEpisode = eps,
                         endOfEpisode = epe, noteType = note_type, noteTitle = title',
                         noteText = text', cpOmin = 3, sentToPhysicianDate = send_date,
                         sentToPhysicianStatus = False\<rparr>
            in (status_code < 300, sent @ [POST (ccnotes_url pid) body])))"


section \<open>Deduplicator\<close>

text \<open>The two keys of a candidate in \<open>validate_cpo_with_groupname.py\<close>: \<open>kt\<close> and \<open>ks\<close>.\<close>

definition title_key :: "string \<Rightarrow> string" where
  "title_key title' = lower title'"

definition snippet_key :: "string \<Rightarrow> string" where
  "snippet_key text' = lower (join '' '' (take 10 (py_split text')))"

text \<open>
  The dedupe loop of \<open>main\<close>: a candidate whose title key or snippet key is already
  seen is dropped; any other candidate has both keys added to the sets at once and is
  kept. The result is \<open>unique\<close> with the two sets as the loop leaves them.
\<close>

fun dedupe :: "(string \<times> string) list \<Rightarrow> string set \<Rightarrow> string set
    \<Rightarrow> (string \<times> string) list \<times> string set \<times> string set" where
  "dedupe [] titles snips = ([], titles, snips)"
| "dedupe ((title', text') # rest) titles snips =
     (if title_key title' \<in> titles \<or> snippet_key text' \<in> snips then dedupe rest titles snips
      else (case dedupe rest (insert (title_key title') titles) (insert (snippet_key text') snips) of
              (unique, titles', snips') \<Rightarrow> ((title', text') # unique, titles', snips')))"

text \<open>
  \<open>n.get(k, "")\<close> followed by a string method: a missing key reads as the empty
  string; a value that is no text has no such method.
\<close>

definition text_field :: "pydict \<Rightarrow> string \<Rightarrow> pyexn + string" where
  "text_field d k =
     (case d k of
        None \<Rightarrow> Inr []
      | Some (JStr s) \<Rightarrow> Inr s
      | Some _ \<Rightarrow> Inl AttributeError)"

text \<open>The two set comprehensions that seed the sets from the notes on record.\<close>

fun seed_titles :: "pydict list \<Rightarrow> pyexn + string set" where
  "seed_titles [] = Inr {}"
| "seed_titles (n # ns) =
     (case text_field n ''noteTitle'' of
        Inl e \<Rightarrow> Inl e
      | Inr t \<Rightarrow> (case seed_titles ns of Inl e \<Rightarrow> Inl e | Inr ts \<Rightarrow> Inr (insert (lower t) ts)))"

fun seed_snips :: "pydict list \<Rightarrow> pyexn + string set" where
  "seed_snips [] = Inr {}"
| "seed_snips (n # ns) =
     (case text_field n ''noteText'' of
        Inl e \<Rightarrow> Inl e
      | Inr t \<Rightarrow> (case seed_snips ns of Inl e \<Rightarrow> Inl e | Inr ts \<Rightarrow> Inr (insert (snippet_key t) ts)))"



section \<open>AccrualLoop\<close>

text \<open>
  \<open>math.ceil(n / 3)\<close> on an integer \<open>n\<close>: the quotient rounded up (the float of the
  source is exact far beyond any number of minutes).
\<close>

definition ceil_third :: "int \<Rightarrow> int" where
  "ceil_third n = - ((- n) div 3)"

text \<open>What \<open>main\<close> has fixed when the loop starts, and what the loop changes.\<close>

record loop_ctx =
  existing :: int
  icd :: "string list"
  phys :: string
  window_start :: datetime
  window_end :: datetime

record loop_state =
  created :: int
  seen_titles :: "string set"
  seen_snips :: "string set"
  outside :: world

text \<open>
  How the loop stops: the threshold is reached, the generator came back empty
  (\<open>Generation failed; aborting\<close>), no candidate was new (\<open>No unique generated notes;
  aborting\<close>), or an exception left \<open>main\<close>. \<open>StillRunning\<close> is the answer when the
  iterations allowed are used up and the loop has not stopped.
\<close>

datatype loop_end = ReachedThreshold | GenerationFailed | NoUniqueNotes | Raised pyexn
  | StillRunning

text \<open>
  The loop that validates \<open>to_post\<close>: a verdict that starts with \<open>VALID\<close> draws the send
  date and counts a note; any other verdict is skipped.
\<close>

fun validate_and_post :: "backend \<Rightarrow> (nat \<Rightarrow> nat) \<Rightarrow> loop_ctx \<Rightarrow> (string \<times> string) list \<Rightarrow> int
    \<Rightarrow> world \<Rightarrow> pyexn option \<times> int \<times> world" where
  "validate_and_post llm rnd C [] n w = (None, n, w)"
| "validate_and_post llm rnd C ((t, tx) # rest) n w =
     (case validate_note llm ''CPO'' t tx (icd C) (phys C) (llm_log w) of
        (verdict, sent) \<Rightarrow>
          if prefix ''VALID'' verdict then
            (case random_date (rnd (draws w)) (window_start C) (window_end C) of
               Inl e \<Rightarrow> (Some e, n, w\<lparr>llm_log := sent\<rparr>)
             | Inr send_dt \<Rightarrow>
                 validate_and_post llm rnd C rest (n + 1) (w\<lparr>llm_log := sent, draws := Suc (draws w)\<rparr>))
          else validate_and_post llm rnd C rest n (w\<lparr>llm_log := sent\<rparr>))"

text \<open>
  One pass through the body of \<open>while existing + created*3 < 30\<close>: \<open>None\<close> when the
  body runs to its end and the loop test is next, the way the loop stops otherwise.
\<close>

definition loop_body :: "backend \<Rightarrow> (nat \<Rightarrow> nat) \<Rightarrow> loop_ctx \<Rightarrow> loop_state
    \<Rightarrow> loop_end option \<times> loop_state" where
  "loop_body llm rnd C s =
     (let needed = ceil_third (30 - existing C - created s * 3);
          batch = min 3 needed
      in case generate_notes llm (icd C) (phys C) batch (llm_log (outside s)) of
           (Inl e, sent) \<Rightarrow> (Some (Raised e), s\<lparr>outside := (outside s)\<lparr>llm_log := sent\<rparr>\<rparr>)
         | (Inr gen_notes, sent) \<Rightarrow>
             if gen_notes = [] then
               (Some GenerationFailed, s\<lparr>outside := (outside s)\<lparr>llm_log := sent\<rparr>\<rparr>)
             else
               (case dedupe gen_notes (seen_titles s) (seen_snips s) of
                  (unique, titles', snips') \<Rightarrow>
                    if unique = [] then
                      (Some NoUniqueNotes,
                       s\<lparr>seen_titles := titles', seen_snips := snips',
                         outside := (outside s)\<lparr>llm_log := sent\<rparr>\<rparr>)
                    else
                      (case validate_and_post llm rnd C (slice_to needed unique) (created s)
                              ((outside s)\<lparr>llm_log := sent\<rparr>) of
                         (exn, n, w) \<Rightarrow>
                           (map_option Raised exn,
                            s\<lparr>created := n, seen_titles := titles', seen_snips := snips',
                              outside := w\<rparr>))))"

text \<open>
  The \<open>while\<close> loop, run for at most the given number of passes through its body.
\<close>

fun accrual_loop :: "nat \<Rightarrow> backend \<Rightarrow> (nat \<Rightarrow> nat) \<Rightarrow> loop_ctx \<Rightarrow> loop_state
    \<Rightarrow> loop_end \<times> loop_state" where
  "accrual_loop 0 llm rnd C s =
     (if existing C + created s * 3 < 30 then (StillRunning, s) else (ReachedThreshold, s))"
| "accrual_loop (Suc fuel) llm rnd C s =
     (if existing C + created s * 3 < 30 then
        (case loop_body llm rnd C s of
           (Some r, s') \<Rightarrow> (r, s')
         | (None, s') \<Rightarrow> accrual_loop fuel llm rnd C s')
      else (ReachedThreshold, s))"


text \<open>
  What a run of \<open>main\<close> is given from outside: the standard library's
  \<open>datetime.fromisoformat\<close>, the record store's answer to each of the four reads in the
  order \<open>main\<close> makes them, the backend, and the random generator's draws.
\<close>

record env =
  fromisoformat :: "string \<Rightarrow> iso_result"
  ledger_notes :: "pyexn + pydict list"
  order_list :: "pyexn + pydict list"
  patient_total :: "pyexn + agency_info option"
  ccnotes :: "pyexn + pydict list"
  backend_of :: backend
  draw_of :: "nat \<Rightarrow> nat"

datatype main_end = AlreadyBilled | NoCertification | Aborted pyexn | LoopEnded loop_end

definition no_requests :: world where
  "no_requests = \<lparr>http_log = [], llm_log = [], draws = 0\<rparr>"

text \<open>
  \<open>main\<close> of \<open>validate_cpo_with_groupname.py\<close>, with the loop run for at most the given
  number of passes: how it ended, the notes created, and what was sent outside.
\<close>

definition main :: "nat \<Rightarrow> env \<Rightarrow> string \<Rightarrow> string \<Rightarrow> main_end \<times> int \<times> world" where
  "main fuel E pid month =
     (case get_existing_cpo_minutes_validate (fromisoformat E) (ledger_notes E) pid month [] of
        (Inl e, r1) \<Rightarrow> (Aborted e, 0, no_requests\<lparr>http_log := r1\<rparr>)
      | (Inr existing', r1) \<Rightarrow>
      if 30 \<le> existing' then (AlreadyBilled, 0, no_requests\<lparr>http_log := r1\<rparr>)
      else
      case get_orders (order_list E) pid r1 of
        (Inl e, r2) \<Rightarrow> (Aborted e, 0, no_requests\<lparr>http_log := r2\<rparr>)
      | (Inr orders, r2) \<Rightarrow>
      case find_cert_order orders of
        Inl e \<Rightarrow> (Aborted e, 0, no_requests\<lparr>http_log := r2\<rparr>)
      | Inr None \<Rightarrow> (NoCertification, 0, no_requests\<lparr>http_log := r2\<rparr>)
      | Inr (Some cert) \<Rightarrow>
      case window_groupname cert month of
        Inl e \<Rightarrow> (Aborted e, 0, no_requests\<lparr>http_log := r2\<rparr>)
      | Inr (w_start, w_end) \<Rightarrow>
      case get_cert_info (patient_total E) pid r2 of
        (Inl e, r3) \<Rightarrow> (Aborted e, 0, no_requests\<lparr>http_log := r3\<rparr>)
      | (Inr agency, r3) \<Rightarrow>
      case get_ccnotes (ccnotes E) pid r3 of
        (Inl e, r4) \<Rightarrow> (Aborted e, 0, no_requests\<lparr>http_log := r4\<rparr>)
      | (Inr existing_notes, r4) \<Rightarrow>
      case seed_titles existing_notes of
        Inl e \<Rightarrow> (Aborted e, 0, no_requests\<lparr>http_log := r4\<rparr>)
      | Inr titles \<Rightarrow>
      case seed_snips existing_notes of
        Inl e \<Rightarrow> (Aborted e, 0, no_requests\<lparr>http_log := r4\<rparr>)
      | Inr snips \<Rightarrow>
      case accrual_loop fuel (backend_of E) (draw_of E)
             \<lparr>existing = existing',
              icd = (case agency of None \<Rightarrow> [] | Some a \<Rightarrow> (case icdCodes a of None \<Rightarrow> [] | Some l \<Rightarrow> l)),
              phys = (case agency of None \<Rightarrow> [] | Some a \<Rightarrow>
                        (case physicianCertification a of None \<Rightarrow> [] | Some p \<Rightarrow> p)),
              window_start = w_start, window_end = w_end\<rparr>
             \<lparr>created = 0, seen_titles = titles, seen_snips = snips,
              outside = no_requests\<lparr>http_log := r4\<rparr>\<rparr> of
        (r, s) \<Rightarrow> (LoopEnded r, created s, outside s))"


section \<open>Notions the properties are stated with\<close>

subsection \<open>Certification orders\<close>

text \<open>A field of an order that \<open>find_cert_order\<close> can read: text, or a false value.\<close>

definition text_or_false :: "json \<Rightarrow> bool" where
  "text_or_false v = (case v of JStr s \<Rightarrow> True | _ \<Rightarrow> \<not> truthy v)"

definition order_fields_ok :: "pydict \<Rightarrow> bool" where
  "order_fields_ok ord =
     (text_or_false (dget ord ''daOrderType'') \<and> text_or_false (dget ord ''documentName''))"

text \<open>The lowered text of a field; a field that holds no text reads as empty.\<close>

definition field_lower :: "pydict \<Rightarrow> string \<Rightarrow> string" where
  "field_lower d k = (case dget d k of JStr s \<Rightarrow> lower s | _ \<Rightarrow> [])"

text \<open>
  The test of \<open>find_cert_order\<close>: the type starts with \<open>485\<close> or holds \<open>recert\<close>, or the
  name holds \<open>485\<close> or \<open>recert\<close>. The test of \<open>find_485_cert_order\<close> knows \<open>485\<close> only.
\<close>

definition is_cert_order :: "pydict \<Rightarrow> bool" where
  "is_cert_order ord =
     (prefix ''485'' (field_lower ord ''daOrderType'')
      \<or> sublist ''485'' (field_lower ord ''documentName'')
      \<or> sublist ''recert'' (field_lower ord ''daOrderType'')
      \<or> sublist ''recert'' (field_lower ord ''documentName''))"

definition is_485_order :: "pydict \<Rightarrow> bool" where
  "is_485_order ord =
     (prefix ''485'' (field_lower ord ''daOrderType'')
      \<or> sublist ''485'' (field_lower ord ''documentName''))"

text \<open>
  The specification's wording: a substring match, in any case, of \<open>485\<close> or \<open>recert\<close> on
  the type or the name, and the first order that matches.
\<close>

definition spec_is_485_recert :: "pydict \<Rightarrow> bool" where
  "spec_is_485_recert ord =
     (sublist ''485'' (field_lower ord ''daOrderType'')
      \<or> sublist ''recert'' (field_lower ord ''daOrderType'')
      \<or> sublist ''485'' (field_lower ord ''documentName'')
      \<or> sublist ''recert'' (field_lower ord ''documentName''))"

definition spec_findCertificationOrder :: "pydict list \<Rightarrow> pydict option" where
  "spec_findCertificationOrder orders = List.find spec_is_485_recert orders"

definition order_cms485 :: pydict where
  "order_cms485 = [''daOrderType'' \<mapsto> JStr ''CMS-485'', ''documentName'' \<mapsto> JStr ''Plan of Care'']"

definition order_recert :: pydict where
  "order_recert =
     [''daOrderType'' \<mapsto> JStr ''Recertification'', ''documentName'' \<mapsto> JStr ''Home Health Recert'']"

definition order_visit :: pydict where
  "order_visit = [''daOrderType'' \<mapsto> JStr ''Visit Note'']"

definition order_485 :: pydict where
  "order_485 = [''daOrderType'' \<mapsto> JStr ''485 Certification'', ''documentName'' \<mapsto> JNull]"

subsection \<open>Backends for the examples\<close>

definition note_reply :: string where
  "note_reply = ''NoteTitle: Wound care follow-up'' @ NL
                @ ''NoteText: Reviewed the wound care plan with the nurse.''"

definition llm_timeout_then_note :: backend where
  "llm_timeout_then_note k req =
     (if k = 0 then APITimeoutError ''Request timed out.'' else Completion note_reply)"

definition llm_always_timeout :: backend where
  "llm_always_timeout k req = APITimeoutError ''Request timed out.''"

definition llm_error :: backend where
  "llm_error k req = OpenAIError ''Connection error.''"

subsection \<open>Deduplication and the loop\<close>



subsection \<open>Requests to the record store\<close>

fun is_get :: "http_request \<Rightarrow> bool" where
  "is_get (GET url) = True"
| "is_get (POST url body) = False"

text \<open>The four reads of \<open>main\<close>, in the order it makes them.\<close>

definition reads_of_main :: "string \<Rightarrow> http_request list" where
  "reads_of_main pid =
     [GET (ccnotes_url pid), GET (orders_url pid), GET (patient_total_url pid),
      GET (ccnotes_url pid)]"

subsection \<open>A loop context, a starting state and backends for the examples\<close>





definition draw0 :: "nat \<Rightarrow> nat" where
  "draw0 k = 0"



subsection \<open>Case and white space\<close>




subsection \<open>The ledger\<close>

text \<open>
  An instance of \<open>datetime.fromisoformat\<close> for the examples. It reads the form
  \<open>YYYY-MM-DDThh:mm:ss\<close>, which the library reads as a naive datetime, and answers
  \<open>ValueError\<close> to any other text; the examples hold no text of another form that the
  library would read.
\<close>

definition two_digits :: "string \<Rightarrow> nat \<Rightarrow> int option" where
  "two_digits s i =
     (if is_digit (s ! i) \<and> is_digit (s ! Suc i) then Some (digits_val [s ! i, s ! Suc i]) else None)"

definition fromisoformat_basic :: "string \<Rightarrow> iso_result" where
  "fromisoformat_basic s =
     (if length s = 19 \<and> list_all is_digit (take 4 s) \<and> s ! 4 = CHR ''-'' \<and> s ! 7 = CHR ''-''
         \<and> s ! 10 = CHR ''T'' \<and> s ! 13 = CHR '':'' \<and> s ! 16 = CHR '':''
      then (case (two_digits s 5, two_digits s 8, two_digits s 11, two_digits s 14, two_digits s 17) of
              (Some m, Some d, Some hh, Some mm, Some ss) \<Rightarrow>
                (let y = digits_val (take 4 s)
                 in if 1 \<le> y \<and> 1 \<le> m \<and> m \<le> 12 \<and> 1 \<le> d \<and> d \<le> days_in_month y m
                       \<and> hh < 24 \<and> mm < 60 \<and> ss < 60
                    then IsoNaive (mk_datetime y m d hh mm ss) else IsoError)
            | _ \<Rightarrow> IsoError)
      else IsoError)"









subsection \<open>Billing windows\<close>

text \<open>The specification's \<open>clip\<close>.\<close>

definition clip :: "datetime \<Rightarrow> datetime \<Rightarrow> datetime \<Rightarrow> datetime \<Rightarrow> datetime \<times> datetime" where
  "clip certStart certEnd monthStart monthEnd = (max certStart monthStart, min certEnd monthEnd)"

text \<open>
  Two certification orders: one whose start of care lies months before June 2025, one
  whose episode begins after June 2025 has ended.
\<close>

definition cert_soc_january :: pydict where
  "cert_soc_january =
     [''daOrderType'' \<mapsto> JStr ''485 Certification'', ''startOfCare'' \<mapsto> JStr ''01/01/2025'',
      ''episodeStartDate'' \<mapsto> JStr ''05/02/2025'', ''episodeEndDate'' \<mapsto> JStr ''07/15/2025'']"

definition cert_july :: pydict where
  "cert_july =
     [''daOrderType'' \<mapsto> JStr ''485 Certification'', ''startOfCare'' \<mapsto> JStr ''07/01/2025'',
      ''episodeStartDate'' \<mapsto> JStr ''07/01/2025'', ''episodeEndDate'' \<mapsto> JStr ''08/29/2025'']"

text \<open>
  A run of \<open>main\<close> for June 2025 with the second order: nothing on record, a backend
  that answers one note and then \<open>VALID\<close>.
\<close>

definition llm_note_then_valid :: backend where
  "llm_note_then_valid k req = (if even k then Completion note_reply else Completion ''VALID'')"

definition env_july :: env where
  "env_july =
     \<lparr>fromisoformat = fromisoformat_basic, ledger_notes = Inr [], order_list = Inr [cert_july],
      patient_total = Inr (Some \<lparr>icdCodes = Some [''Hypertension''],
                                  physicianCertification = Some ''Homebound.''\<rparr>),
      ccnotes = Inr [], backend_of = llm_note_then_valid, draw_of = draw0\<rparr>"

section \<open>Properties\<close>

subsection \<open>Evaluation on literals\<close>

lemmas text_eval = lower_def lower_char_def upper_char_def ascii_upper_def ascii_lower_def
  is_space_def strip_def lstrip_def rstrip_def py_split_def

lemmas value_eval = dget_def py_or_def get_lower_def field_lower_def text_or_false_def

subsection \<open>CertificationResolver\<close>

lemma py_in_sublist: "py_in sub s = sublist sub s"
  by (induction s) (auto simp: sublist_Cons_right)

lemma get_lower_ok: "text_or_false (dget d k) \<Longrightarrow> get_lower d k = Inr (field_lower d k)"
  by (cases "dget d k")
     (auto simp: get_lower_def field_lower_def text_or_false_def py_or_def lower_def)

lemma find_cert_order_find:
  "\<forall>ord\<in>set os. order_fields_ok ord \<Longrightarrow> find_cert_order os = Inr (List.find is_cert_order os)"
  by (induction os) (auto simp: order_fields_ok_def get_lower_ok is_cert_order_def py_in_sublist)

lemma find_485_cert_order_find:
  "\<forall>ord\<in>set os. order_fields_ok ord
   \<Longrightarrow> find_485_cert_order os = Inr (List.find is_485_order os)"
  by (induction os) (auto simp: order_fields_ok_def get_lower_ok is_485_order_def py_in_sublist)

text \<open>
  C6, as stated, fails: the type is tested for \<open>485\<close> at its start only, so an order of
  type \<open>CMS-485\<close> is passed over though \<open>485\<close> is a substring of its type; and
  \<open>find_485_cert_order\<close> of \<open>generate_cpo.py\<close> does not look for \<open>recert\<close> at all.
\<close>

theorem find_cert_order_substring_counterexample:
  "find_cert_order [order_cms485] = Inr None
   \<and> spec_findCertificationOrder [order_cms485] = Some order_cms485
   \<and> find_485_cert_order [order_recert] = Inr None
   \<and> spec_findCertificationOrder [order_recert] = Some order_recert"
  by (simp add: text_eval value_eval order_cms485_def order_recert_def
      spec_findCertificationOrder_def spec_is_485_recert_def py_in_sublist[symmetric])

text \<open>
  C6, amended: on orders whose type and name are text or false values, \<open>find_cert_order\<close>
  returns the first order of the list, in the list's order, whose lowered type starts
  with \<open>485\<close> or contains \<open>recert\<close> or whose lowered name contains \<open>485\<close> or \<open>recert\<close>, and
  none when no order is such; \<open>find_485_cert_order\<close> does the same with the two tests
  for \<open>485\<close> alone. \<^const>\<open>List.find\<close> is the first element that passes the test.
\<close>

theorem find_cert_order_first_match:
  assumes "\<forall>ord\<in>set os. order_fields_ok ord"
  shows "find_cert_order os = Inr (List.find is_cert_order os)
         \<and> find_485_cert_order os = Inr (List.find is_485_order os)"
  using assms by (simp add: find_cert_order_find find_485_cert_order_find)

theorem find_cert_order_first_match_witness:
  "find_cert_order [order_visit, order_recert, order_485] = Inr (Some order_recert)
   \<and> find_485_cert_order [order_visit, order_recert, order_485] = Inr (Some order_485)"
  using find_cert_order_first_match [of "[order_visit, order_recert, order_485]"]
  by (simp add: text_eval value_eval order_visit_def order_recert_def order_485_def
      order_fields_ok_def is_cert_order_def is_485_order_def py_in_sublist[symmetric])

subsection \<open>NoteGenerator\<close>

text \<open>
  C8: both generators send the request once more, unchanged, when the first call times
  out, and never a third time; a second timeout and any other failure of the backend
  give the empty list as a value (\<open>Inr []\<close> where the function can raise at all), not
  an exception. \<open>sent\<close> is the list of the requests sent before, so the two results
  name exactly the requests the call adds.
\<close>

theorem generate_notes_retry_once:
  "(let req = gen_request (build_gen_prompt ic ph cnt); n = length sent;
        G = generate_notes llm ic ph cnt sent in
     (llm n req = Completion c \<longrightarrow> G = (parse_notes c, sent @ [req]))
     \<and> (llm n req = OpenAIError m \<longrightarrow> G = (Inr [], sent @ [req]))
     \<and> (llm n req = APITimeoutError m \<longrightarrow> snd G = sent @ [req, req])
     \<and> (llm n req = APITimeoutError m \<and> llm (Suc n) req = Completion c
          \<longrightarrow> fst G = parse_notes c)
     \<and> (llm n req = APITimeoutError m \<and> llm (Suc n) req = APITimeoutError m'
          \<longrightarrow> fst G = Inr [])
     \<and> (llm n req = APITimeoutError m \<and> llm (Suc n) req = OpenAIError m'
          \<longrightarrow> fst G = Inr []))
   \<and> (let req = gen_request prompt; n = length sent;
        G = generate_notes_cpo llm prompt sent in
     (llm n req = Completion c \<longrightarrow> G = (paragraphs c, sent @ [req]))
     \<and> (llm n req = OpenAIError m \<longrightarrow> G = ([], sent @ [req]))
     \<and> (llm n req = APITimeoutError m \<longrightarrow> snd G = sent @ [req, req])
     \<and> (llm n req = APITimeoutError m \<and> llm (Suc n) req = Completion c
          \<longrightarrow> fst G = paragraphs c)
     \<and> (llm n req = APITimeoutError m \<and> llm (Suc n) req = APITimeoutError m'
          \<longrightarrow> fst G = [])
     \<and> (llm n req = APITimeoutError m \<and> llm (Suc n) req = OpenAIError m'
          \<longrightarrow> fst G = []))"
  by (auto simp: Let_def generate_notes_def generate_notes_cpo_def numeral_2_eq_2
           split: llm_response.splits)

theorem generate_notes_retry_once_witness:
  "generate_notes llm_always_timeout [''I10''] ''Homebound.'' 3 []
     = (Inr [], [gen_request (build_gen_prompt [''I10''] ''Homebound.'' 3),
                 gen_request (build_gen_prompt [''I10''] ''Homebound.'' 3)])
   \<and> generate_notes llm_error [''I10''] ''Homebound.'' 3 []
     = (Inr [], [gen_request (build_gen_prompt [''I10''] ''Homebound.'' 3)])
   \<and> generate_notes llm_timeout_then_note [''I10''] ''Homebound.'' 3 []
     = (parse_notes note_reply, [gen_request (build_gen_prompt [''I10''] ''Homebound.'' 3),
                 gen_request (build_gen_prompt [''I10''] ''Homebound.'' 3)])
   \<and> generate_notes_cpo llm_always_timeout ''Generate 3 notes'' []
     = ([], [gen_request ''Generate 3 notes'', gen_request ''Generate 3 notes''])"
  using generate_notes_retry_once [where llm = llm_always_timeout and ic = "[''I10'']"
           and ph = "''Homebound.''" and cnt = 3 and sent = "[]" and prompt = "''Generate 3 notes''"
           and m = "''Request timed out.''" and m' = "''Request timed out.''"]
        generate_notes_retry_once [where llm = llm_error and ic = "[''I10'']"
           and ph = "''Homebound.''" and cnt = 3 and sent = "[]" and m = "''Connection error.''"]
        generate_notes_retry_once [where llm = llm_timeout_then_note and ic = "[''I10'']"
           and ph = "''Homebound.''" and cnt = 3 and sent = "[]" and c = note_reply
           and m = "''Request timed out.''"]
  by (simp add: Let_def llm_always_timeout_def llm_error_def llm_timeout_then_note_def prod_eq_iff)

subsection \<open>Deduplicator: what the dedupe loop does to the sets\<close>

lemma dedupe_mono:
  "dedupe c T S = (U, T', S') \<Longrightarrow> T \<subseteq> T' \<and> S \<subseteq> S'"
proof (induction c arbitrary: T S U T' S')
  case Nil
  then show ?case by simp
next
  case (Cons e c)
  obtain t x where e: "e = (t, x)" by (cases e)
  show ?case
  proof (cases "title_key t \<in> T \<or> snippet_key x \<in> S")
    case True
    with Cons.prems e have "dedupe c T S = (U, T', S')" by simp
    then show ?thesis by (rule Cons.IH)
  next
    case False
    obtain U0 T0 S0 where r: "dedupe c (insert (title_key t) T) (insert (snippet_key x) S) = (U0, T0, S0)"
      by (cases "dedupe c (insert (title_key t) T) (insert (snippet_key x) S)") auto
    with Cons.prems e False have "T' = T0" "S' = S0" by auto
    with Cons.IH[OF r] show ?thesis by auto
  qed
qed




subsection \<open>Requests and counters along the loop\<close>

lemma generate_attempts_log:
  "length sent < length (snd (generate_attempts (Suc k) llm p sent))"
proof (induction k arbitrary: sent)
  case 0
  then show ?case by (auto split: llm_response.splits)
next
  case (Suc k)
  show ?case
  proof (cases "llm (length sent) (gen_request p)")
    case (APITimeoutError m)
    with Suc[of "sent @ [gen_request p]"] show ?thesis by simp
  qed auto
qed

lemma generate_notes_log: "length sent < length (snd (generate_notes llm ic ph cnt sent))"
  by (simp add: generate_notes_def numeral_2_eq_2 generate_attempts_log del: generate_attempts.simps)

lemma validate_note_log:
  "snd (validate_note llm g t x ic ph sent) = sent @ [val_request (validate_prompt g t x ic ph)]"
  by (simp add: validate_note_def Let_def split: llm_response.splits)

lemma validate_and_post_frame:
  "validate_and_post llm rnd C cands n w = (ex, n', w')
   \<Longrightarrow> http_log w' = http_log w \<and> length (llm_log w) \<le> length (llm_log w') \<and> n \<le> n'
       \<and> n' \<le> n + int (length cands)"
proof (induction cands arbitrary: n w)
  case Nil
  then show ?case by simp
next
  case (Cons a cands)
  obtain t tx where a: "a = (t, tx)" by (cases a)
  obtain verdict sent where v: "validate_note llm ''CPO'' t tx (icd C) (phys C) (llm_log w) = (verdict, sent)"
    by (cases "validate_note llm ''CPO'' t tx (icd C) (phys C) (llm_log w)") auto
  have sent: "length (llm_log w) \<le> length sent"
    using validate_note_log[of llm "''CPO''" t tx "icd C" "phys C" "llm_log w"] v by simp
  show ?case
  proof (cases "prefix ''VALID'' verdict")
    case False
    with Cons.prems a v
    have "validate_and_post llm rnd C cands n (w\<lparr>llm_log := sent\<rparr>) = (ex, n', w')" by simp
    from Cons.IH[OF this] sent show ?thesis by simp
  next
    case True
    show ?thesis
    proof (cases "random_date (rnd (draws w)) (window_start C) (window_end C)")
      case (Inl e)
      with Cons.prems a v True sent show ?thesis by auto
    next
      case (Inr d)
      with Cons.prems a v True
      have "validate_and_post llm rnd C cands (n + 1) (w\<lparr>llm_log := sent, draws := Suc (draws w)\<rparr>) = (ex, n', w')"
        by simp
      from Cons.IH[OF this] sent show ?thesis by simp
    qed
  qed
qed


lemma loop_body_frame:
  assumes "loop_body llm rnd C s = (r, s')"
  shows "http_log (outside s') = http_log (outside s)
         \<and> length (llm_log (outside s)) < length (llm_log (outside s'))
         \<and> created s \<le> created s'
         \<and> seen_titles s \<subseteq> seen_titles s' \<and> seen_snips s \<subseteq> seen_snips s'
         \<and> r \<noteq> Some StillRunning \<and> r \<noteq> Some ReachedThreshold"
proof -
  let ?needed = "ceil_third (30 - existing C - created s * 3)"
  obtain g sent where g: "generate_notes llm (icd C) (phys C) (min 3 ?needed) (llm_log (outside s)) = (g, sent)"
    by (cases "generate_notes llm (icd C) (phys C) (min 3 ?needed) (llm_log (outside s))") auto
  have len: "length (llm_log (outside s)) < length sent"
    using generate_notes_log[of "llm_log (outside s)" llm "icd C" "phys C" "min 3 ?needed"] g by simp
  show ?thesis
  proof (cases g)
    case (Inl e)
    with assms g len show ?thesis by (auto simp: loop_body_def Let_def)
  next
    case (Inr gen)
    show ?thesis
    proof (cases "gen = []")
      case True
      with assms g Inr len show ?thesis by (auto simp: loop_body_def Let_def)
    next
      case False
      obtain U T' S' where d: "dedupe gen (seen_titles s) (seen_snips s) = (U, T', S')"
        by (cases "dedupe gen (seen_titles s) (seen_snips s)") auto
      note mono = dedupe_mono[OF d]
      show ?thesis
      proof (cases "U = []")
        case True
        with assms g Inr False d len mono show ?thesis by (auto simp: loop_body_def Let_def)
      next
        case nonempty: False
        obtain ex n w where v: "validate_and_post llm rnd C (slice_to ?needed U) (created s)
              ((outside s)\<lparr>llm_log := sent\<rparr>) = (ex, n, w)"
          by (cases "validate_and_post llm rnd C (slice_to ?needed U) (created s)
              ((outside s)\<lparr>llm_log := sent\<rparr>)") auto
        from validate_and_post_frame[OF v]
        have fr: "http_log w = http_log (outside s)" "length sent \<le> length (llm_log w)" "created s \<le> n"
          by simp_all
        from assms g Inr False d nonempty v
        have r: "r = map_option Raised ex"
          and s': "s' = s\<lparr>created := n, seen_titles := T', seen_snips := S', outside := w\<rparr>"
          by (auto simp: loop_body_def Let_def)
        from r have "r \<noteq> Some StillRunning \<and> r \<noteq> Some ReachedThreshold" by (cases ex) auto
        with s' fr len mono show ?thesis by auto
      qed
    qed
  qed
qed






lemma accrual_loop_frame:
  "http_log (outside (snd (accrual_loop fuel llm rnd C s))) = http_log (outside s)"
proof (induction fuel arbitrary: s)
  case 0
  then show ?case by simp
next
  case (Suc fuel)
  obtain r s' where body: "loop_body llm rnd C s = (r, s')"
    by (cases "loop_body llm rnd C s") auto
  from loop_body_frame[OF body] have "http_log (outside s') = http_log (outside s)" by simp
  with body Suc.IH[of s'] show ?case by (cases r) auto
qed

lemma accrual_loop_frame_pair:
  "accrual_loop fuel llm rnd C s = (r, s') \<Longrightarrow> http_log (outside s') = http_log (outside s)"
  using accrual_loop_frame[of fuel llm rnd C s] by simp

lemma main_reads: "prefix (http_log (snd (snd (main fuel E pid month)))) (reads_of_main pid)"
  by (auto simp: main_def reads_of_main_def get_existing_cpo_minutes_validate_def get_orders_def
        get_cert_info_def get_ccnotes_def no_requests_def
      split: sum.splits prod.splits option.splits dest!: accrual_loop_frame_pair)

lemma prefix_all_get: "prefix xs (reads_of_main pid) \<Longrightarrow> list_all is_get xs"
  by (auto simp: prefix_def reads_of_main_def list_all_iff Cons_eq_append_conv append_eq_Cons_conv)

subsection \<open>Dry run\<close>

text \<open>
  C10: with \<open>DRY_RUN\<close> as the module sets it, \<open>post_note\<close> answers \<open>True\<close> and sends
  nothing; and whatever the record store, the backend and the generator answer, and
  however long the loop is run, the requests \<open>main\<close> has sent to the record store are
  an initial piece of its four reads, so all of them are reads.
\<close>

theorem dry_run_never_posts:
  "post_note DRY_RUN code reqs pid soc eps epe nt t x d = (True, reqs)
   \<and> prefix (http_log (snd (snd (main fuel E pid month)))) (reads_of_main pid)
   \<and> list_all is_get (http_log (snd (snd (main fuel E pid month))))"
  using main_reads[of fuel E pid month] prefix_all_get
  by (simp add: post_note_def DRY_RUN_def)

subsection \<open>AccrualLoop: progress and exit\<close>




subsection \<open>Deduplicator: when a candidate is recorded\<close>





subsection \<open>Validator\<close>









subsection \<open>Deduplicator: normalisation\<close>

















subsection \<open>MinuteLedger\<close>








subsection \<open>TimeWindow\<close>

text \<open>
  Once the dates and the label are parsed, the window of \<open>validate_cpo.py\<close> is the
  specification's \<open>clip\<close> of start of care and episode end against the month, and the
  window of \<open>validate_cpo_with_groupname.py\<close> starts at the start of care as it is.
\<close>

lemma window_validate_cpo_clip:
  "parse_date_field cert ''startOfCare'' = Inr soc
   \<Longrightarrow> parse_date_field cert ''episodeStartDate'' = Inr ep_start
   \<Longrightarrow> parse_date_field cert ''episodeEndDate'' = Inr ep_end
   \<Longrightarrow> month_of_label month = Inr mdt
   \<Longrightarrow> window_validate_cpo cert month = Inr (clip soc ep_end (month_first mdt) (month_last mdt))
       \<and> window_groupname cert month = Inr (soc, min ep_end (month_last mdt))"
  by (simp add: window_validate_cpo_def window_groupname_def clip_def)

text \<open>
  C3 at the failing input: for an order with start of care 01/01/2025 and the month
  June 2025, \<open>main\<close> of \<open>validate_cpo_with_groupname.py\<close> takes 1 January 2025 as the
  start of the window, where the clipped start, which \<open>validate_cpo.py\<close> computes, is
  1 June 2025.
\<close>

theorem window_start_not_clipped:
  "window_groupname cert_soc_january ''June 2025''
     = Inr (mk_datetime 2025 1 1 0 0 0, mk_datetime 2025 6 30 23 59 59)
   \<and> window_validate_cpo cert_soc_january ''June 2025''
     = Inr (mk_datetime 2025 6 1 0 0 0, mk_datetime 2025 6 30 23 59 59)
   \<and> clip (mk_datetime 2025 1 1 0 0 0) (mk_datetime 2025 7 15 0 0 0)
          (month_first (2025, 6)) (month_last (2025, 6))
     = (mk_datetime 2025 6 1 0 0 0, mk_datetime 2025 6 30 23 59 59)
   \<and> mk_datetime 2025 1 1 0 0 0 < mk_datetime 2025 6 1 0 0 0"
  by code_simp

text \<open>
  C4 at the failing input: for an order whose care starts on 07/01/2025 and the month
  June 2025 the window ends before it starts; \<open>random_date\<close> raises \<open>ValueError\<close> on it,
  and a run of \<open>main\<close> in which the validator accepts a note ends with that exception.
\<close>

theorem empty_window_raises:
  "window_groupname cert_july ''June 2025''
     = Inr (mk_datetime 2025 7 1 0 0 0, mk_datetime 2025 6 30 23 59 59)
   \<and> mk_datetime 2025 6 30 23 59 59 < mk_datetime 2025 7 1 0 0 0
   \<and> random_date 0 (mk_datetime 2025 7 1 0 0 0) (mk_datetime 2025 6 30 23 59 59) = Inl ValueError
   \<and> fst (main 1 env_july ''p1'' ''June 2025'') = LoopEnded (Raised ValueError)
   \<and> fst (snd (main 1 env_july ''p1'' ''June 2025'')) = 0"
  by code_simp

end
